theory Spec2Isabelle
  imports Complex_Main "HOL-Library.Word"
begin

unbundle bit_operations_syntax

section \<open>libblastrampoline: autodetection of suffix, interface width and f2c convention\<close>

text \<open>
  A shallow embedding of \<^verbatim>\<open>src/autodetection.c\<close> and
  \<^verbatim>\<open>src/libblastrampoline_trampdata.h\<close>.

  The C functions talk to three things that are not part of the two files: the symbol
  resolver \<^verbatim>\<open>lookup_symbol\<close>, the routines of the probed library that are called
  through casted function pointers, and the pair
  \<^verbatim>\<open>push_fake_lsame\<close>/\<^verbatim>\<open>pop_fake_lsame\<close>. Every such interaction is
  written into a trace of events, and every model function takes the trace so far and
  returns the extended one. What a probed routine answers is a parameter of the model; it
  may depend on the address called, on the arguments and on everything that has happened
  before (the trace), so a routine with internal state, or one that behaves differently
  while the \<^verbatim>\<open>lsame_\<close> substitution is installed, is covered.
\<close>

subsection \<open>Pointers, faults, IEEE-754 values\<close>

type_synonym addr = "64 word"

definition NULL :: addr where
  "NULL = 0"

text \<open>
  \<^verbatim>\<open>sprintf\<close> writes into \<^verbatim>\<open>char symbol_name[MAX_SYMBOL_LEN]\<close> without a
  bound. Writing the name and its terminating zero byte past the end of the buffer is
  undefined behaviour: the model stops there with a fault, and nothing is stated about
  what a compiled program does then.
\<close>

datatype fault = Buffer_overflow

definition sprintf :: "nat \<Rightarrow> string \<Rightarrow> fault + string" where
  "sprintf cap s = (if length s + 1 \<le> cap then Inr s else Inl Buffer_overflow)"

text \<open>
  \<^verbatim>\<open>float\<close> and \<^verbatim>\<open>double\<close> objects are kept as their IEEE-754 bit patterns
  (binary32 in a \<open>32 word\<close>, binary64 in a \<open>64 word\<close>). \<open>float_val\<close> and
  \<open>double_val\<close> read a pattern as the number it stands for.
\<close>

datatype fpval = Finite rat | Infinite bool | NaN

definition pow2 :: "int \<Rightarrow> rat" where
  "pow2 k = (if 0 \<le> k then 2 ^ nat k else 1 / 2 ^ nat (- k))"

definition float_val :: "32 word \<Rightarrow> fpval" where
  "float_val w =
    (let s = bit w 31;
         e = unat (drop_bit 23 w AND 0xFF);
         m = unat (w AND 0x7FFFFF)
     in if e = 0xFF then (if m = 0 then Infinite s else NaN)
        else Finite ((if s then - 1 else 1) * of_nat (if e = 0 then m else 2 ^ 23 + m)
                      * pow2 (int (max e 1) - 150)))"

definition double_val :: "64 word \<Rightarrow> fpval" where
  "double_val w =
    (let s = bit w 63;
         e = unat (drop_bit 52 w AND 0x7FF);
         m = unat (w AND 0xFFFFFFFFFFFFF)
     in if e = 0x7FF then (if m = 0 then Infinite s else NaN)
        else Finite ((if s then - 1 else 1) * of_nat (if e = 0 then m else 2 ^ 52 + m)
                      * pow2 (int (max e 1) - 1075)))"

text \<open>
  The C operator \<^verbatim>\<open>==\<close> on floating operands, after the usual arithmetic conversions
  (which keep the value): a NaN equals nothing, both zeros are equal.
\<close>

fun c_eq :: "fpval \<Rightarrow> fpval \<Rightarrow> bool" where
  "c_eq (Finite a) (Finite b) = (a = b)"
| "c_eq (Infinite s) (Infinite t) = (s = t)"
| "c_eq _ _ = False"

text \<open>
  The conversion of a \<^verbatim>\<open>double\<close> to \<^verbatim>\<open>float\<close>, as in
  \<^verbatim>\<open>float f2c = sdot_f2c(...)\<close> and \<^verbatim>\<open>float A[1] = {.5}\<close>: round to nearest,
  ties to even (the default rounding direction), with gradual underflow and overflow to
  infinity. The significand \<open>M\<close> of the double is cut by \<open>shift\<close> bits; exponent field
  and kept significand are added, so that a carry out of the significand moves into the
  exponent.
\<close>

definition double_to_float :: "64 word \<Rightarrow> 32 word" where
  "double_to_float d =
    (let s = (if bit d 63 then 0x80000000 else 0);
         e = unat (drop_bit 52 d AND 0x7FF);
         m = unat (d AND 0xFFFFFFFFFFFFF)
     in if e = 0x7FF then
          (if m = 0 then s OR 0x7F800000 else s OR 0x7FC00000 OR of_nat (m div 2 ^ 29))
        else
          let M = (if e = 0 then m else 2 ^ 52 + m);
              shift = max 29 (926 - max e 1);
              R = M div 2 ^ shift;
              rem = M mod 2 ^ shift;
              half = 2 ^ (shift - 1);
              R' = (if half < rem \<or> (rem = half \<and> odd R) then R + 1 else R);
              bits = (max e 1 - 897) * 2 ^ 23 + R'
          in if 0x7F800000 \<le> bits then s OR 0x7F800000 else s OR of_nat bits)"

text \<open>The floating constants of the source: \<^verbatim>\<open>1.0f\<close>, \<^verbatim>\<open>2.0f\<close> (float), \<^verbatim>\<open>.5\<close> and \<^verbatim>\<open>0.25\<close> (double).\<close>

definition lit_1_0f :: "32 word" where
  "lit_1_0f = 0x3F800000"

definition lit_2_0f :: "32 word" where
  "lit_2_0f = 0x40000000"

definition lit_0_5 :: "64 word" where
  "lit_0_5 = 0x3FE0000000000000"

definition lit_0_25 :: "64 word" where
  "lit_0_25 = 0x3FD0000000000000"

subsection \<open>What the two files take from the rest of the repository\<close>

text \<open>
  The macros below are defined in headers that are not among the two source files. Their
  values are parameters of the model: every theorem holds for each choice of them.
  \<open>LBT_DEEPBINDLESS\<close> says whether the build defines that macro.
\<close>

record macros =
  MAX_SYMBOL_LEN :: nat
  LBT_INTERFACE_LP64 :: "32 word"
  LBT_INTERFACE_ILP64 :: "32 word"
  LBT_INTERFACE_UNKNOWN :: "32 word"
  LBT_F2C_PLAIN :: "32 word"
  LBT_F2C_REQUIRED :: "32 word"
  LBT_F2C_UNKNOWN :: "32 word"
  LBT_DEEPBINDLESS :: bool

text \<open>
  The events of a trace. A call event carries the address called and the contents of the
  objects its pointer arguments point to at the time of the call; an array element that the
  source never initialised is \<open>None\<close>.
\<close>

datatype event =
    Lookup_symbol addr string
  | Push_fake_lsame
  | Pop_fake_lsame
  | Call_isamax addr "64 word" "32 word list" "64 word"
  | Call_dpotrf addr char "64 word" "64 word option list" "64 word" "64 word"
  | Call_sdot_plain addr "64 word" "32 word list" "64 word" "32 word list" "64 word"
  | Call_sdot_f2c addr "64 word" "32 word list" "64 word" "32 word list" "64 word"


text \<open>
  The world outside the two files.
  \<^item> \<open>lookup_symbol env handle name\<close> is \<^verbatim>\<open>lookup_symbol(handle, name)\<close>: the address
    of the symbol, \<open>NULL\<close> if the library has none of that name.
  \<^item> \<open>isamax env tr a n X incx\<close> is what the code at address \<open>a\<close> returns when it is
    called as a function from \<^verbatim>\<open>int64_t *, float *, int64_t *\<close> to \<^verbatim>\<open>int64_t\<close>
    after the events \<open>tr\<close>.
  \<^item> \<open>dpotrf env tr a uplo m A lda info\<close> is the content of the \<^verbatim>\<open>info\<close> object after
    the call as a \<^verbatim>\<open>void\<close> function of
    \<^verbatim>\<open>char *, int64_t *, double *, int64_t *, int64_t *\<close>.
  \<^item> \<open>sdot_plain\<close> and \<open>sdot_f2c\<close> are the values returned by the address when called
    through the pointer that returns \<^verbatim>\<open>float\<close> and through the one that returns
    \<^verbatim>\<open>double\<close>.
  The probed routines return; of the objects passed to them, the source reads only
  \<^verbatim>\<open>info\<close> again, and between the two \<^verbatim>\<open>sdot\<close> calls the arguments are taken as
  unchanged (they are inputs of the BLAS routine).
\<close>

record extern =
  lookup_symbol :: "addr \<Rightarrow> string \<Rightarrow> addr"
  isamax :: "event list \<Rightarrow> addr \<Rightarrow> 64 word \<Rightarrow> 32 word list \<Rightarrow> 64 word \<Rightarrow> 64 word"
  dpotrf :: "event list \<Rightarrow> addr \<Rightarrow> char \<Rightarrow> 64 word \<Rightarrow> 64 word option list \<Rightarrow> 64 word \<Rightarrow> 64 word
               \<Rightarrow> 64 word"
  sdot_plain :: "event list \<Rightarrow> addr \<Rightarrow> 64 word \<Rightarrow> 32 word list \<Rightarrow> 64 word \<Rightarrow> 32 word list \<Rightarrow> 64 word
               \<Rightarrow> 32 word"
  sdot_f2c :: "event list \<Rightarrow> addr \<Rightarrow> 64 word \<Rightarrow> 32 word list \<Rightarrow> 64 word \<Rightarrow> 32 word list \<Rightarrow> 64 word
               \<Rightarrow> 64 word"

subsection \<open>\<^verbatim>\<open>autodetect_symbol_suffix\<close>\<close>

definition symbol_names :: "string list" where
  "symbol_names = [''isamax_'', ''dpotrf_'']"

definition suffixes :: "string list" where
  "suffixes = ['''', ''_'', ''__'', ''64_'', ''_64__'', ''__64___'']"

text \<open>The inner loop over \<^verbatim>\<open>suffix_idx\<close>, from the suffixes still to try.\<close>

fun suffix_loop ::
  "macros \<Rightarrow> extern \<Rightarrow> addr \<Rightarrow> string \<Rightarrow> string list \<Rightarrow> event list
     \<Rightarrow> fault + (string option \<times> event list)" where
  "suffix_loop cfg env handle stem [] tr = Inr (None, tr)"
| "suffix_loop cfg env handle stem (sfx # rest) tr =
    (case sprintf (MAX_SYMBOL_LEN cfg) (stem @ sfx) of
       Inl f \<Rightarrow> Inl f
     | Inr symbol_name \<Rightarrow>
         if lookup_symbol env handle symbol_name \<noteq> NULL
         then Inr (Some sfx, tr @ [Lookup_symbol handle symbol_name])
         else suffix_loop cfg env handle stem rest (tr @ [Lookup_symbol handle symbol_name]))"

text \<open>The outer loop over \<^verbatim>\<open>symbol_idx\<close>.\<close>

fun symbol_loop ::
  "macros \<Rightarrow> extern \<Rightarrow> addr \<Rightarrow> string list \<Rightarrow> event list
     \<Rightarrow> fault + (string option \<times> event list)" where
  "symbol_loop cfg env handle [] tr = Inr (None, tr)"
| "symbol_loop cfg env handle (stem # stems) tr =
    (case suffix_loop cfg env handle stem suffixes tr of
       Inl f \<Rightarrow> Inl f
     | Inr (Some sfx, tr') \<Rightarrow> Inr (Some sfx, tr')
     | Inr (None, tr') \<Rightarrow> symbol_loop cfg env handle stems tr')"

text \<open>The result \<open>None\<close> is the \<^verbatim>\<open>NULL\<close> returned after both loops.\<close>

definition autodetect_symbol_suffix ::
  "macros \<Rightarrow> extern \<Rightarrow> addr \<Rightarrow> event list \<Rightarrow> fault + (string option \<times> event list)" where
  "autodetect_symbol_suffix cfg env handle tr = symbol_loop cfg env handle symbol_names tr"

subsection \<open>\<^verbatim>\<open>autodetect_blas_interface\<close> and \<^verbatim>\<open>autodetect_lapack_interface\<close>\<close>

definition autodetect_blas_interface ::
  "macros \<Rightarrow> extern \<Rightarrow> addr \<Rightarrow> event list \<Rightarrow> 32 word \<times> event list" where
  "autodetect_blas_interface cfg env isamax_addr tr =
    (let n = 0xffffffff00000003;
         X = [lit_1_0f, lit_2_0f, lit_1_0f];
         incx = 1;
         tr1 = (if LBT_DEEPBINDLESS cfg then tr @ [Push_fake_lsame] else tr);
         max_idx = isamax env tr1 isamax_addr n X incx;
         tr2 = tr1 @ [Call_isamax isamax_addr n X incx];
         tr3 = (if LBT_DEEPBINDLESS cfg then tr2 @ [Pop_fake_lsame] else tr2)
     in if max_idx = 0 then (LBT_INTERFACE_ILP64 cfg, tr3)
        else if max_idx = 2 then (LBT_INTERFACE_LP64 cfg, tr3)
        else (LBT_INTERFACE_UNKNOWN cfg, tr3))"

definition autodetect_lapack_interface ::
  "macros \<Rightarrow> extern \<Rightarrow> addr \<Rightarrow> event list \<Rightarrow> 32 word \<times> event list" where
  "autodetect_lapack_interface cfg env dpotrf_addr tr =
    (let testmat = [None, None, None, None];
         uplo = CHR ''U'';
         m = 2;
         lda = 0;
         info = 0;
         tr1 = tr @ [Call_dpotrf dpotrf_addr uplo m testmat lda info];
         info = dpotrf env tr dpotrf_addr uplo m testmat lda info
     in if info = 0xfffffffffffffffc then (LBT_INTERFACE_ILP64 cfg, tr1)
        else if info = 0x00000000fffffffc then (LBT_INTERFACE_LP64 cfg, tr1)
        else (LBT_INTERFACE_UNKNOWN cfg, tr1))"

subsection \<open>\<^verbatim>\<open>autodetect_interface\<close>\<close>

definition autodetect_interface ::
  "macros \<Rightarrow> extern \<Rightarrow> addr \<Rightarrow> string \<Rightarrow> event list \<Rightarrow> fault + (32 word \<times> event list)" where
  "autodetect_interface cfg env handle suffix tr =
    (case sprintf (MAX_SYMBOL_LEN cfg) (''isamax_'' @ suffix) of
       Inl f \<Rightarrow> Inl f
     | Inr symbol_name \<Rightarrow>
         let isamax_addr = lookup_symbol env handle symbol_name;
             tr1 = tr @ [Lookup_symbol handle symbol_name]
         in if isamax_addr \<noteq> NULL
            then Inr (autodetect_blas_interface cfg env isamax_addr tr1)
            else
              (case sprintf (MAX_SYMBOL_LEN cfg) (''dpotrf_'' @ suffix) of
                 Inl f \<Rightarrow> Inl f
               | Inr symbol_name \<Rightarrow>
                   let dpotrf_addr = lookup_symbol env handle symbol_name;
                       tr2 = tr1 @ [Lookup_symbol handle symbol_name]
                   in if dpotrf_addr \<noteq> NULL
                      then Inr (autodetect_lapack_interface cfg env dpotrf_addr tr2)
                      else Inr (LBT_INTERFACE_UNKNOWN cfg, tr2)))"

subsection \<open>\<^verbatim>\<open>autodetect_f2c\<close> (builds with \<^verbatim>\<open>F2C_AUTODETECTION\<close>)\<close>

definition autodetect_f2c ::
  "macros \<Rightarrow> extern \<Rightarrow> addr \<Rightarrow> string \<Rightarrow> event list \<Rightarrow> fault + (32 word \<times> event list)" where
  "autodetect_f2c cfg env handle suffix tr =
    (case sprintf (MAX_SYMBOL_LEN cfg) (''sdot_'' @ suffix) of
       Inl f \<Rightarrow> Inl f
     | Inr symbol_name \<Rightarrow>
         let sdot_addr = lookup_symbol env handle symbol_name;
             tr0 = tr @ [Lookup_symbol handle symbol_name]
         in if sdot_addr = NULL then Inr (0, tr0)
            else
              let A = [double_to_float lit_0_5];
                  B = [double_to_float lit_0_5];
                  n = 1;
                  inca = 1;
                  incb = 1;
                  plain = sdot_plain env tr0 sdot_addr n A inca B incb;
                  tr1 = tr0 @ [Call_sdot_plain sdot_addr n A inca B incb];
                  f2c = double_to_float (sdot_f2c env tr1 sdot_addr n A inca B incb);
                  tr2 = tr1 @ [Call_sdot_f2c sdot_addr n A inca B incb]
              in if c_eq (float_val plain) (double_val lit_0_25) then Inr (LBT_F2C_PLAIN cfg, tr2)
                 else if c_eq (float_val f2c) (double_val lit_0_25) then Inr (LBT_F2C_REQUIRED cfg, tr2)
                 else Inr (LBT_F2C_UNKNOWN cfg, tr2))"

subsection \<open>The \<^verbatim>\<open>lsame_\<close> substitution\<close>

text \<open>
  Modelled from the spec: \<^verbatim>\<open>push_fake_lsame\<close> and \<^verbatim>\<open>pop_fake_lsame\<close> are defined
  outside the two source files. The spec describes them as the install and the restore of
  a process-wide override with a strict push/pop discipline. \<open>fake_lsame_depth\<close> counts the
  installs of a trace that are not yet reverted; \<open>under_fake_lsame d tr\<close> lists the events
  of \<open>tr\<close> that happen while the substitution is installed, starting from depth \<open>d\<close>.
\<close>

fun fake_lsame_depth :: "event list \<Rightarrow> int" where
  "fake_lsame_depth [] = 0"
| "fake_lsame_depth (Push_fake_lsame # es) = fake_lsame_depth es + 1"
| "fake_lsame_depth (Pop_fake_lsame # es) = fake_lsame_depth es - 1"
| "fake_lsame_depth (e # es) = fake_lsame_depth es"

fun under_fake_lsame :: "int \<Rightarrow> event list \<Rightarrow> event list" where
  "under_fake_lsame d [] = []"
| "under_fake_lsame d (Push_fake_lsame # es) = under_fake_lsame (d + 1) es"
| "under_fake_lsame d (Pop_fake_lsame # es) = under_fake_lsame (d - 1) es"
| "under_fake_lsame d (e # es) =
    (if 0 < d then e # under_fake_lsame d es else under_fake_lsame d es)"

subsection \<open>\<^verbatim>\<open>libblastrampoline_trampdata.h\<close>\<close>

text \<open>
  Modelled from the spec: \<^verbatim>\<open>exported_funcs.inc\<close>, which defines the macro
  \<^verbatim>\<open>EXPORTED_FUNCS(XX)\<close>, is not among the source files. The header's comment says the
  names are processed item by item by defining \<^verbatim>\<open>XX\<close>, and the spec calls the registry
  an ordered list of names fixed at build time: \<^verbatim>\<open>EXPORTED_FUNCS(XX)\<close> applies
  \<^verbatim>\<open>XX\<close> to every name of the registry, in the registry's order. The registry is a
  parameter.
\<close>

definition EXPORTED_FUNCS :: "string list \<Rightarrow> (string \<Rightarrow> 'a) \<Rightarrow> 'a list" where
  "EXPORTED_FUNCS registry XX = map XX registry"

text \<open>
  A variable is known by its identifier; a pointer to it is \<open>Some\<close> of the identifier,
  the null pointer is \<open>None\<close>. \<open>addr_holders\<close> are the variables declared by
  \<^verbatim>\<open>EXPORTED_FUNCS(XX)\<close> and \<^verbatim>\<open>EXPORTED_FUNCS(XX_64)\<close> with
  \<^verbatim>\<open>name##_addr\<close> and \<^verbatim>\<open>name##64__addr\<close>.
\<close>

definition addr_holders :: "string list \<Rightarrow> string list" where
  "addr_holders registry =
     EXPORTED_FUNCS registry (\<lambda>name. name @ ''_addr'')
     @ EXPORTED_FUNCS registry (\<lambda>name. name @ ''64__addr'')"

definition exported_func_names :: "string list \<Rightarrow> string option list" where
  "exported_func_names registry = EXPORTED_FUNCS registry (\<lambda>name. Some name) @ [None]"

definition exported_func32_addrs :: "string list \<Rightarrow> string option list" where
  "exported_func32_addrs registry =
     EXPORTED_FUNCS registry (\<lambda>name. Some (name @ ''_addr'')) @ [None]"

definition exported_func64_addrs :: "string list \<Rightarrow> string option list" where
  "exported_func64_addrs registry =
     EXPORTED_FUNCS registry (\<lambda>name. Some (name @ ''64__addr'')) @ [None]"

subsection \<open>The search order of the suffix detection, as a list\<close>

text \<open>
  The pairs of stem and suffix in the order the spec gives for the suffix detection: each
  stem in turn, and for each stem the six suffixes in turn. \<open>first_resolved\<close> is the first
  pair whose concatenation the resolver resolves; \<open>probed\<close> are the elements of a list up
  to and including the first that satisfies a test.
\<close>

definition candidates :: "(string \<times> string) list" where
  "candidates = List.product symbol_names suffixes"

definition resolves :: "extern \<Rightarrow> addr \<Rightarrow> string \<times> string \<Rightarrow> bool" where
  "resolves env handle c = (lookup_symbol env handle (fst c @ snd c) \<noteq> NULL)"

definition first_resolved :: "extern \<Rightarrow> addr \<Rightarrow> (string \<times> string) option" where
  "first_resolved env handle = find (resolves env handle) candidates"

fun probed :: "('a \<Rightarrow> bool) \<Rightarrow> 'a list \<Rightarrow> 'a list" where
  "probed P [] = []"
| "probed P (x # xs) = (if P x then [x] else x # probed P xs)"

definition lookup_of :: "addr \<Rightarrow> string \<times> string \<Rightarrow> event" where
  "lookup_of handle c = Lookup_symbol handle (fst c @ snd c)"

subsection \<open>Sample values and libraries\<close>

text \<open>
  One choice of the macros (for the interface widths the values \<open>32\<close>, \<open>64\<close> and \<open>0\<close>
  that the comment above \<^verbatim>\<open>autodetect_interface\<close> names), and a family of libraries: \<open>fake_library exports max_idx info
  plain wide\<close> resolves exactly the names in \<open>exports\<close> (all to the address \<open>0x1000\<close>);
  its routines answer \<open>max_idx\<close>, store \<open>info\<close> and return \<open>plain\<close> and \<open>wide\<close>,
  whatever they are called with.
\<close>

definition sample_macros :: macros where
  "sample_macros =
     \<lparr>MAX_SYMBOL_LEN = 64,
      LBT_INTERFACE_LP64 = 32, LBT_INTERFACE_ILP64 = 64, LBT_INTERFACE_UNKNOWN = 0,
      LBT_F2C_PLAIN = 0, LBT_F2C_REQUIRED = 1, LBT_F2C_UNKNOWN = - 1,
      LBT_DEEPBINDLESS = True\<rparr>"

definition fake_library :: "string list \<Rightarrow> 64 word \<Rightarrow> 64 word \<Rightarrow> 32 word \<Rightarrow> 64 word \<Rightarrow> extern" where
  "fake_library exports max_idx info plain wide =
     \<lparr>lookup_symbol = (\<lambda>handle name. if name \<in> set exports then 0x1000 else NULL),
      isamax = (\<lambda>tr a n X incx. max_idx),
      dpotrf = (\<lambda>tr a uplo m A lda info0. info),
      sdot_plain = (\<lambda>tr a n A inca B incb. plain),
      sdot_f2c = (\<lambda>tr a n A inca B incb. wide)\<rparr>"

section \<open>Properties\<close>

subsection \<open>Suffix detection\<close>

lemma suffix_loop_find:
  assumes "\<forall>sfx \<in> set sfxs. length (stem @ sfx) + 1 \<le> MAX_SYMBOL_LEN cfg"
  shows "suffix_loop cfg env handle stem sfxs tr =
           Inr (map_option snd (find (resolves env handle) (map (Pair stem) sfxs)),
                tr @ map (lookup_of handle) (probed (resolves env handle) (map (Pair stem) sfxs)))"
  using assms
  by (induction sfxs arbitrary: tr) (auto simp: sprintf_def resolves_def lookup_of_def)

lemma find_append_cases:
  "find P (xs @ ys) = (case find P xs of None \<Rightarrow> find P ys | Some x \<Rightarrow> Some x)"
  by (induction xs) auto

lemma probed_append:
  "probed P (xs @ ys) = (case find P xs of None \<Rightarrow> xs @ probed P ys | Some x \<Rightarrow> probed P xs)"
  by (induction xs) (auto split: option.splits)

lemma probed_no_hit: "find P xs = None \<Longrightarrow> probed P xs = xs"
  by (induction xs) (auto split: if_splits)

lemma symbol_loop_find:
  assumes "\<forall>stem \<in> set stems. \<forall>sfx \<in> set suffixes. length (stem @ sfx) + 1 \<le> MAX_SYMBOL_LEN cfg"
  shows "symbol_loop cfg env handle stems tr =
           Inr (map_option snd (find (resolves env handle) (List.product stems suffixes)),
                tr @ map (lookup_of handle) (probed (resolves env handle) (List.product stems suffixes)))"
  using assms
proof (induction stems arbitrary: tr)
  case Nil
  show ?case by simp
next
  case (Cons stem stems)
  have fits: "\<forall>sfx \<in> set suffixes. length (stem @ sfx) + 1 \<le> MAX_SYMBOL_LEN cfg"
    using Cons.prems by simp
  have rest: "\<forall>stem \<in> set stems. \<forall>sfx \<in> set suffixes. length (stem @ sfx) + 1 \<le> MAX_SYMBOL_LEN cfg"
    using Cons.prems by simp
  show ?case
  proof (cases "find (resolves env handle) (map (Pair stem) suffixes)")
    case None
    then show ?thesis
      by (simp add: suffix_loop_find [OF fits] Cons.IH [OF rest] find_append_cases probed_append
            probed_no_hit)
  next
    case (Some c)
    then show ?thesis
      by (simp add: suffix_loop_find [OF fits] find_append_cases probed_append)
  qed
qed

lemma find_agree: "\<forall>x \<in> set xs. P x \<longleftrightarrow> Q x \<Longrightarrow> find P xs = find Q xs"
  by (induction xs) auto

lemma probed_agree: "\<forall>x \<in> set xs. P x \<longleftrightarrow> Q x \<Longrightarrow> probed P xs = probed Q xs"
  by (induction xs) auto

lemma candidates_eq:
  "candidates =
     [(''isamax_'', ''''), (''isamax_'', ''_''), (''isamax_'', ''__''),
      (''isamax_'', ''64_''), (''isamax_'', ''_64__''), (''isamax_'', ''__64___''),
      (''dpotrf_'', ''''), (''dpotrf_'', ''_''), (''dpotrf_'', ''__''),
      (''dpotrf_'', ''64_''), (''dpotrf_'', ''_64__''), (''dpotrf_'', ''__64___'')]"
  by (simp add: candidates_def symbol_names_def suffixes_def)

lemma candidates_fit:
  assumes "15 \<le> MAX_SYMBOL_LEN cfg"
  shows "\<forall>stem \<in> set symbol_names. \<forall>sfx \<in> set suffixes. length (stem @ sfx) + 1 \<le> MAX_SYMBOL_LEN cfg"
  using assms by (simp add: symbol_names_def suffixes_def)

lemma autodetect_symbol_suffix_eq:
  assumes "15 \<le> MAX_SYMBOL_LEN cfg"
  shows "autodetect_symbol_suffix cfg env handle tr =
           Inr (map_option snd (first_resolved env handle),
                tr @ map (lookup_of handle) (probed (resolves env handle) candidates))"
  by (simp add: autodetect_symbol_suffix_def first_resolved_def candidates_def
        symbol_loop_find [OF candidates_fit [OF assms]])

text \<open>
  Claim C4. \<^verbatim>\<open>autodetect_symbol_suffix\<close> goes through the stems \<^verbatim>\<open>isamax_\<close> and
  \<^verbatim>\<open>dpotrf_\<close> in the outer loop and through the six suffixes in their fixed order in the
  inner loop: the names it looks up are the candidates up to and including the first one
  that resolves, it returns the suffix of that first candidate, and it returns
  \<^verbatim>\<open>NULL\<close> exactly when no candidate resolves. The longest candidate has 14
  characters, so the name buffer has to hold 15 bytes.
\<close>

theorem autodetect_symbol_suffix_first_resolved:
  assumes "15 \<le> MAX_SYMBOL_LEN cfg"
  shows "candidates =
           [(''isamax_'', ''''), (''isamax_'', ''_''), (''isamax_'', ''__''),
            (''isamax_'', ''64_''), (''isamax_'', ''_64__''), (''isamax_'', ''__64___''),
            (''dpotrf_'', ''''), (''dpotrf_'', ''_''), (''dpotrf_'', ''__''),
            (''dpotrf_'', ''64_''), (''dpotrf_'', ''_64__''), (''dpotrf_'', ''__64___'')]
         \<and> autodetect_symbol_suffix cfg env handle tr =
             Inr (map_option snd (first_resolved env handle),
                  tr @ map (lookup_of handle) (probed (resolves env handle) candidates))
         \<and> ((\<exists>tr'. autodetect_symbol_suffix cfg env handle tr = Inr (None, tr'))
              \<longleftrightarrow> (\<forall>c \<in> set candidates. \<not> resolves env handle c))"
proof -
  have "(first_resolved env handle = None) \<longleftrightarrow> (\<forall>c \<in> set candidates. \<not> resolves env handle c)"
    by (auto simp: first_resolved_def find_None_iff)
  then show ?thesis
    by (simp add: autodetect_symbol_suffix_eq [OF assms] candidates_eq [symmetric])
qed

text \<open>
  Claim C5, amended. The stems the source looks up are \<^verbatim>\<open>isamax_\<close> and
  \<^verbatim>\<open>dpotrf_\<close>: the underscore of the FORTRAN name is part of the stem (the source
  comment: we automatically append an underscore to the end, as is standard). If, of all
  the names the detection looks up, the library resolves exactly \<^verbatim>\<open>isamax_\<close>
  followed by the candidate suffix \<open>s\<close>, then the detection returns \<open>s\<close>.
\<close>

theorem autodetect_symbol_suffix_only_isamax:
  assumes "15 \<le> MAX_SYMBOL_LEN cfg"
    and "s \<in> set suffixes"
    and "lookup_symbol env handle (''isamax_'' @ s) \<noteq> NULL"
    and "\<forall>c \<in> set candidates. fst c @ snd c \<noteq> ''isamax_'' @ s
           \<longrightarrow> lookup_symbol env handle (fst c @ snd c) = NULL"
  shows "autodetect_symbol_suffix cfg env handle tr =
           Inr (Some s,
                tr @ map (lookup_of handle) (probed (\<lambda>c. c = (''isamax_'', s)) candidates))"
proof -
  have same: "\<forall>c \<in> set candidates. resolves env handle c \<longleftrightarrow> c = (''isamax_'', s)"
    using assms(3,4) unfolding candidates_eq resolves_def by auto
  have hit: "find (\<lambda>c. c = (''isamax_'', s)) candidates = Some (''isamax_'', s)"
    using assms(2) unfolding candidates_eq suffixes_def by auto
  have "first_resolved env handle = Some (''isamax_'', s)"
    using find_agree [OF same] hit by (simp add: first_resolved_def)
  then show ?thesis
    by (simp add: autodetect_symbol_suffix_eq [OF assms(1)] probed_agree [OF same])
qed

theorem autodetect_symbol_suffix_first_resolved_witness:
  "15 \<le> MAX_SYMBOL_LEN sample_macros
   \<and> autodetect_symbol_suffix sample_macros (fake_library [''dpotrf__'', ''isamax_64_''] 0 0 0 0) 7 [] =
       Inr (Some ''64_'',
            map (Lookup_symbol 7) [''isamax_'', ''isamax__'', ''isamax___'', ''isamax_64_''])
   \<and> (\<exists>tr'. autodetect_symbol_suffix sample_macros (fake_library [''sdot_''] 0 0 0 0) 7 [] =
          Inr (None, tr'))"
proof -
  have fits: "15 \<le> MAX_SYMBOL_LEN sample_macros"
    by (simp add: sample_macros_def)
  have hit: "autodetect_symbol_suffix sample_macros (fake_library [''dpotrf__'', ''isamax_64_''] 0 0 0 0) 7 [] =
       Inr (Some ''64_'',
            map (Lookup_symbol 7) [''isamax_'', ''isamax__'', ''isamax___'', ''isamax_64_''])"
    using autodetect_symbol_suffix_first_resolved [OF fits, THEN conjunct2, THEN conjunct1,
        of "fake_library [''dpotrf__'', ''isamax_64_''] 0 0 0 0" 7 "[]"]
    by (simp add: first_resolved_def candidates_eq resolves_def lookup_of_def fake_library_def NULL_def)
  have miss: "\<exists>tr'. autodetect_symbol_suffix sample_macros (fake_library [''sdot_''] 0 0 0 0) 7 [] =
          Inr (None, tr')"
    using autodetect_symbol_suffix_first_resolved [OF fits, THEN conjunct2, THEN conjunct2,
        of "fake_library [''sdot_''] 0 0 0 0" 7 "[]"]
    by (simp add: candidates_eq resolves_def fake_library_def NULL_def)
  from fits hit miss show ?thesis by simp
qed

theorem autodetect_symbol_suffix_only_isamax_witness:
  "15 \<le> MAX_SYMBOL_LEN sample_macros
   \<and> ''_64__'' \<in> set suffixes
   \<and> autodetect_symbol_suffix sample_macros (fake_library [''isamax__64__''] 0 0 0 0) 7 [] =
       Inr (Some ''_64__'',
            map (Lookup_symbol 7)
              [''isamax_'', ''isamax__'', ''isamax___'', ''isamax_64_'', ''isamax__64__''])"
proof -
  have fits: "15 \<le> MAX_SYMBOL_LEN sample_macros"
    by (simp add: sample_macros_def)
  have cand: "''_64__'' \<in> set suffixes"
    by (simp add: suffixes_def)
  have found: "lookup_symbol (fake_library [''isamax__64__''] 0 0 0 0) 7 (''isamax_'' @ ''_64__'') \<noteq> NULL"
    by (simp add: fake_library_def NULL_def)
  have rest: "\<forall>c \<in> set candidates. fst c @ snd c \<noteq> ''isamax_'' @ ''_64__''
           \<longrightarrow> lookup_symbol (fake_library [''isamax__64__''] 0 0 0 0) 7 (fst c @ snd c) = NULL"
    by (simp add: candidates_eq fake_library_def)
  show ?thesis
    using fits cand autodetect_symbol_suffix_only_isamax [OF fits cand found rest, of "[]"]
    by (simp add: candidates_eq lookup_of_def)
qed

text \<open>
  Claim C5 as stated decorates the stem \<^verbatim>\<open>isamax\<close>. A library whose only symbol is
  \<^verbatim>\<open>isamax\<close> decorated with the candidate suffix \<^verbatim>\<open>_\<close>, that is
  \<^verbatim>\<open>isamax_\<close>, resolves exactly one of the names the detection looks up, and the
  detection returns the empty suffix, not \<^verbatim>\<open>_\<close>. A library whose only symbol is
  the undecorated \<^verbatim>\<open>isamax\<close> resolves none of the twelve names, and the detection
  returns \<^verbatim>\<open>NULL\<close>.
\<close>

theorem autodetect_symbol_suffix_bare_stem_counterexample:
  "''_'' \<in> set suffixes
   \<and> filter (\<lambda>name. lookup_symbol (fake_library [''isamax'' @ ''_''] 0 0 0 0) 7 name \<noteq> NULL)
         (map (\<lambda>c. fst c @ snd c) candidates) = [''isamax'' @ ''_'']
   \<and> autodetect_symbol_suffix sample_macros (fake_library [''isamax'' @ ''_''] 0 0 0 0) 7 [] =
       Inr (Some '''', [Lookup_symbol 7 ''isamax_''])
   \<and> \<not> (\<exists>tr'. autodetect_symbol_suffix sample_macros (fake_library [''isamax'' @ ''_''] 0 0 0 0) 7 [] =
            Inr (Some ''_'', tr'))
   \<and> '''' \<in> set suffixes
   \<and> lookup_symbol (fake_library [''isamax'' @ ''''] 0 0 0 0) 7 (''isamax'' @ '''') \<noteq> NULL
   \<and> (\<exists>tr'. autodetect_symbol_suffix sample_macros (fake_library [''isamax'' @ ''''] 0 0 0 0) 7 [] =
          Inr (None, tr'))"
proof -
  have fits: "15 \<le> MAX_SYMBOL_LEN sample_macros"
    by (simp add: sample_macros_def)
  have one: "autodetect_symbol_suffix sample_macros (fake_library [''isamax'' @ ''_''] 0 0 0 0) 7 [] =
       Inr (Some '''', [Lookup_symbol 7 ''isamax_''])"
    by (simp add: autodetect_symbol_suffix_eq [OF fits] first_resolved_def candidates_eq resolves_def
          lookup_of_def fake_library_def NULL_def)
  have none: "\<exists>tr'. autodetect_symbol_suffix sample_macros (fake_library [''isamax'' @ ''''] 0 0 0 0) 7 [] =
          Inr (None, tr')"
    by (simp add: autodetect_symbol_suffix_eq [OF fits] first_resolved_def candidates_eq resolves_def
          fake_library_def NULL_def)
  have only: "filter (\<lambda>name. lookup_symbol (fake_library [''isamax'' @ ''_''] 0 0 0 0) 7 name \<noteq> NULL)
         (map (\<lambda>c. fst c @ snd c) candidates) = [''isamax'' @ ''_'']"
    by (simp add: candidates_eq fake_library_def NULL_def)
  have found: "lookup_symbol (fake_library [''isamax'' @ ''''] 0 0 0 0) 7 (''isamax'' @ '''') \<noteq> NULL"
    by (simp add: fake_library_def NULL_def)
  from one none only found show ?thesis
    by (simp add: suffixes_def)
qed

text \<open>
  The bound of 15 bytes is sharp: with a smaller buffer, the detection on a library that
  resolves none of the names runs into the overflow.
\<close>

lemma autodetect_symbol_suffix_overflow:
  assumes "MAX_SYMBOL_LEN cfg < 15"
    and "\<And>name. lookup_symbol env handle name = NULL"
  shows "autodetect_symbol_suffix cfg env handle tr = Inl Buffer_overflow"
  using assms
  by (simp add: autodetect_symbol_suffix_def symbol_names_def suffixes_def sprintf_def)

subsection \<open>The floating constants\<close>

lemma float_val_lits:
  "float_val lit_1_0f = Finite 1" "float_val lit_2_0f = Finite 2"
  by (simp_all add: float_val_def lit_1_0f_def lit_2_0f_def pow2_def)

lemma double_val_lits:
  "double_val lit_0_5 = Finite (1 / 2)" "double_val lit_0_25 = Finite (1 / 4)"
  by (simp_all add: double_val_def lit_0_5_def lit_0_25_def pow2_def)

lemma half_as_float:
  "double_to_float lit_0_5 = 0x3F000000" "float_val 0x3F000000 = Finite (1 / 2)"
  by (simp_all add: double_to_float_def lit_0_5_def float_val_def pow2_def)

lemma c_eq_Finite: "c_eq v (Finite q) \<longleftrightarrow> v = Finite q"
  by (cases v) auto

text \<open>
  A double whose value is exactly \<open>1/4\<close> has sign \<open>0\<close>, exponent field \<open>1021\<close> and
  fraction \<open>0\<close>, and its conversion to float is the float \<open>0.25\<close>.
\<close>

lemma pow2_scale: "pow2 (int k - int c) * 2 ^ c = 2 ^ k"
proof (cases "c \<le> k")
  case True
  then have "pow2 (int k - int c) = 2 ^ (k - c)"
    by (simp add: pow2_def nat_diff_distrib')
  then show ?thesis
    using True by (simp add: power_add [symmetric])
next
  case False
  then have "pow2 (int k - int c) = 1 / 2 ^ (c - k)"
    by (simp add: pow2_def nat_diff_distrib')
  moreover have "(2::rat) ^ c = 2 ^ (c - k) * 2 ^ k"
    using False by (simp add: power_add [symmetric])
  ultimately show ?thesis
    by simp
qed

lemma pow2_pos: "0 < pow2 j"
  by (simp add: pow2_def)

lemma power_two_between:
  fixes M :: nat
  assumes lo: "2 ^ p \<le> M" and hi: "M < 2 ^ Suc p" and eq: "M * 2 ^ e = 2 ^ q"
  shows "M = 2 ^ p \<and> q = p + e"
proof -
  have "2 ^ p * 2 ^ e \<le> M * 2 ^ e"
    using lo by (rule mult_le_mono1)
  then have "(2::nat) ^ (p + e) \<le> 2 ^ q"
    by (simp only: power_add eq)
  then have a: "p + e \<le> q"
    by simp
  have "M * 2 ^ e < 2 ^ Suc p * 2 ^ e"
    using hi by simp
  then have "(2::nat) ^ q < 2 ^ (Suc p + e)"
    by (simp only: power_add eq)
  then have b: "q < Suc p + e"
    by (rule power_less_imp_less_exp [rotated]) simp
  from a b have q: "q = p + e"
    by simp
  with eq have "M * 2 ^ e = 2 ^ p * 2 ^ e"
    by (simp add: power_add)
  then have "M = 2 ^ p"
    by simp
  with q show ?thesis
    by simp
qed

lemma power_two_below:
  fixes M :: nat
  assumes hi: "M < 2 ^ r" and eq: "M * 2 ^ e = 2 ^ q"
  shows "q < r + e"
proof -
  have "M * 2 ^ e < 2 ^ r * 2 ^ e"
    using hi by simp
  then have "(2::nat) ^ q < 2 ^ (r + e)"
    by (simp only: power_add eq)
  then show ?thesis
    by simp
qed

lemma quarter_scaled:
  fixes M k c :: nat
  assumes "of_nat M * pow2 (int k - int (c + 2)) = (1 / 4 :: rat)"
  shows "M * 2 ^ k = 2 ^ c"
proof -
  have "(of_nat M :: rat) * 2 ^ k = of_nat M * pow2 (int k - int (c + 2)) * 2 ^ (c + 2)"
    by (simp only: pow2_scale mult.assoc)
  also have "\<dots> = (1 / 4) * 2 ^ (c + 2)"
    by (simp only: assms)
  also have "\<dots> = 2 ^ c"
    by (simp add: power_add)
  finally have "(of_nat (M * 2 ^ k) :: rat) = of_nat (2 ^ c)"
    by simp
  then show ?thesis
    by (simp only: of_nat_eq_iff)
qed

lemma double_val_quarter_fields:
  assumes "double_val w = Finite (1 / 4)"
  shows "\<not> bit w 63 \<and> unat (drop_bit 52 w AND 0x7FF) = 1021 \<and> unat (w AND 0xFFFFFFFFFFFFF) = 0"
proof -
  define s where "s = bit w 63"
  define e where "e = unat (drop_bit 52 w AND 0x7FF)"
  define m where "m = unat (w AND 0xFFFFFFFFFFFFF)"
  define M where "M = (if e = 0 then m else 2 ^ 52 + m)"
  define k where "k = max e 1"
  have "unat (w AND 0xFFFFFFFFFFFFF) \<le> unat (0xFFFFFFFFFFFFF :: 64 word)"
    by (rule word_and_le1 [THEN word_le_nat_alt [THEN iffD1]])
  then have m: "m < 2 ^ 52"
    by (simp add: m_def)
  from assms have fin: "e \<noteq> 0x7FF"
    and val: "(if s then - 1 else 1) * of_nat M * pow2 (int k - 1075) = (1 / 4 :: rat)"
    by (simp_all add: double_val_def Let_def s_def e_def m_def M_def k_def split: if_splits)
  have pos: "0 < pow2 (int k - 1075)"
    by (rule pow2_pos)
  have s: "\<not> s"
  proof
    assume s
    with val have "- (of_nat M * pow2 (int k - 1075)) = (1 / 4 :: rat)"
      by simp
    moreover have "0 \<le> of_nat M * pow2 (int k - 1075)"
      using pos by simp
    ultimately show False
      by linarith
  qed
  define c where "c = (1073::nat)"
  from s val have "of_nat M * pow2 (int k - int (c + 2)) = (1 / 4 :: rat)"
    by (simp add: c_def)
  then have eq: "M * 2 ^ k = 2 ^ c"
    by (rule quarter_scaled)
  have e: "e \<noteq> 0"
  proof
    assume "e = 0"
    then have "M < 2 ^ 52" and "k = 1"
      using m by (simp_all add: M_def k_def)
    with eq have "c < 52 + 1"
      using power_two_below [of M 52 1 c] by simp
    then show False
      by (simp add: c_def)
  qed
  then have M: "M = 2 ^ 52 + m" and k: "k = e"
    by (simp_all add: M_def k_def)
  have lo: "2 ^ 52 \<le> M" and hi: "M < 2 ^ Suc 52"
    using m by (simp_all add: M)
  from lo hi eq have "M = 2 ^ 52 \<and> c = 52 + k"
    by (rule power_two_between)
  then have "m = 0" and "e = 1021"
    using M k by (simp_all add: c_def)
  with s show ?thesis
    by (simp add: s_def e_def m_def)
qed

lemma double_quarter_to_float:
  assumes "double_val w = Finite (1 / 4)"
  shows "double_to_float w = 0x3E800000"
  using double_val_quarter_fields [OF assms]
  by (simp add: double_to_float_def)

text \<open>
  The conversion on some doubles whose float is known: \<open>1\<close>, \<open>-1\<close>, \<open>0.1\<close>, the largest
  float, the first double that rounds to infinity, the largest double, \<open>2\<^sup>-\<^sup>1\<^sup>4\<^sup>9\<close>, the
  tie \<open>2\<^sup>-\<^sup>1\<^sup>5\<^sup>0\<close> and its successor, the largest double below \<open>2\<^sup>-\<^sup>1\<^sup>2\<^sup>6\<close>, the tie
  above \<open>0.25\<close> and its successor, infinity and a NaN.
\<close>

lemma double_to_float_examples:
  "double_to_float 0x3FF0000000000000 = 0x3F800000"
  "double_to_float 0xBFF0000000000000 = 0xBF800000"
  "double_to_float 0x3FB999999999999A = 0x3DCCCCCD"
  "double_to_float 0x47EFFFFFE0000000 = 0x7F7FFFFF"
  "double_to_float 0x47EFFFFFF0000000 = 0x7F800000"
  "double_to_float 0x7FEFFFFFFFFFFFFF = 0x7F800000"
  "double_to_float 0x36A0000000000000 = 0x00000001"
  "double_to_float 0x3690000000000000 = 0x00000000"
  "double_to_float 0x3690000000000001 = 0x00000001"
  "double_to_float 0x380FFFFFFFFFFFFF = 0x00800000"
  "double_to_float 0x3FD0000010000000 = 0x3E800000"
  "double_to_float 0x3FD0000010000001 = 0x3E800001"
  "double_to_float 0x7FF0000000000000 = 0x7F800000"
  "double_to_float 0x7FF0000000000001 = 0x7FC00000"
  by (simp_all add: double_to_float_def)

text \<open>
  The double next above \<open>0.25\<close> lies between the neighbouring floats \<open>0.25\<close> and
  \<open>0.25 + 2\<^sup>-\<^sup>2\<^sup>5\<close>, much nearer to the first.
\<close>

lemma near_quarter_values:
  "double_val 0x3FD0000000000001 = Finite (1 / 4 + 1 / 2 ^ 54)"
  "float_val 0x3E800000 = Finite (1 / 4)"
  "float_val 0x3E800001 = Finite (1 / 4 + 1 / 2 ^ 25)"
  "float_val 0x00000001 = Finite (1 / 2 ^ 149)"
  by (simp_all add: double_val_def float_val_def pow2_def)

subsection \<open>The BLAS and LAPACK sub-tests\<close>

text \<open>
  The length passed to \<^verbatim>\<open>isamax\<close>: its low 32 bits are the number \<open>3\<close>, as a signed
  64-bit number it is negative.
\<close>

lemma probe_length_views:
  "ucast (0xFFFFFFFF00000003 :: 64 word) = (3 :: 32 word)"
  "sint (0xFFFFFFFF00000003 :: 64 word) < 0"
  by simp_all

text \<open>
  Claim C1. \<^verbatim>\<open>autodetect_blas_interface\<close> calls the probed routine once, with a length
  whose 64-bit pattern is \<open>0xFFFFFFFF00000003\<close>, the three floats \<open>1.0, 2.0, 1.0\<close> and
  stride \<open>1\<close>; a returned \<open>0\<close> gives \<^verbatim>\<open>LBT_INTERFACE_ILP64\<close>, a returned \<open>2\<close> gives
  \<^verbatim>\<open>LBT_INTERFACE_LP64\<close>, and every other value gives \<^verbatim>\<open>LBT_INTERFACE_UNKNOWN\<close>.
  The routine is a parameter: what the index \<open>2\<close> means inside the library is not part of
  the statement.
\<close>

theorem autodetect_blas_interface_probe:
  "autodetect_blas_interface cfg env isamax_addr tr =
     (let before = (if LBT_DEEPBINDLESS cfg then [Push_fake_lsame] else []);
          after = (if LBT_DEEPBINDLESS cfg then [Pop_fake_lsame] else []);
          X = [lit_1_0f, lit_2_0f, lit_1_0f];
          max_idx = isamax env (tr @ before) isamax_addr 0xFFFFFFFF00000003 X 1
      in (if max_idx = 0 then LBT_INTERFACE_ILP64 cfg
          else if max_idx = 2 then LBT_INTERFACE_LP64 cfg
          else LBT_INTERFACE_UNKNOWN cfg,
          tr @ before @ [Call_isamax isamax_addr 0xFFFFFFFF00000003 X 1] @ after))
   \<and> map float_val [lit_1_0f, lit_2_0f, lit_1_0f] = [Finite 1, Finite 2, Finite 1]"
  by (simp add: autodetect_blas_interface_def Let_def float_val_lits)

theorem autodetect_blas_interface_probe_witness:
  "autodetect_blas_interface sample_macros (fake_library [] 0 0 0 0) 0x1000 [] =
     (64, [Push_fake_lsame, Call_isamax 0x1000 0xFFFFFFFF00000003 [0x3F800000, 0x40000000, 0x3F800000] 1,
           Pop_fake_lsame])
   \<and> fst (autodetect_blas_interface sample_macros (fake_library [] 2 0 0 0) 0x1000 []) = 32
   \<and> fst (autodetect_blas_interface sample_macros (fake_library [] 3 0 0 0) 0x1000 []) = 0"
  using autodetect_blas_interface_probe [THEN conjunct1, of sample_macros "fake_library [] 0 0 0 0" "0x1000" "[]"]
    autodetect_blas_interface_probe [THEN conjunct1, of sample_macros "fake_library [] 2 0 0 0" "0x1000" "[]"]
    autodetect_blas_interface_probe [THEN conjunct1, of sample_macros "fake_library [] 3 0 0 0" "0x1000" "[]"]
  by (simp add: sample_macros_def fake_library_def lit_1_0f_def lit_2_0f_def)

text \<open>
  Claim C2. \<^verbatim>\<open>autodetect_lapack_interface\<close> calls the probed routine once, with
  \<^verbatim>\<open>uplo = 'U'\<close>, order \<open>2\<close>, a matrix of four (uninitialised) doubles, \<^verbatim>\<open>lda = 0\<close>
  and an \<^verbatim>\<open>info\<close> object holding \<open>0\<close>. If the object then holds \<open>0xFFFFFFFFFFFFFFFC\<close>
  (the 64-bit \<open>-4\<close>) the result is \<^verbatim>\<open>LBT_INTERFACE_ILP64\<close>; if it holds
  \<open>0x00000000FFFFFFFC\<close> (the 32-bit \<open>-4\<close> in the low half, the high half zero) the result
  is \<^verbatim>\<open>LBT_INTERFACE_LP64\<close>; every other content gives \<^verbatim>\<open>LBT_INTERFACE_UNKNOWN\<close>.
\<close>

theorem autodetect_lapack_interface_probe:
  "autodetect_lapack_interface cfg env dpotrf_addr tr =
     (let testmat = [None, None, None, None];
          info = dpotrf env tr dpotrf_addr CHR ''U'' 2 testmat 0 0
      in (if info = 0xFFFFFFFFFFFFFFFC then LBT_INTERFACE_ILP64 cfg
          else if info = 0x00000000FFFFFFFC then LBT_INTERFACE_LP64 cfg
          else LBT_INTERFACE_UNKNOWN cfg,
          tr @ [Call_dpotrf dpotrf_addr CHR ''U'' 2 testmat 0 0]))
   \<and> (0xFFFFFFFFFFFFFFFC :: 64 word) = - 4
   \<and> (0x00000000FFFFFFFC :: 64 word) = ucast (- 4 :: 32 word)"
  by (simp add: autodetect_lapack_interface_def Let_def)

theorem autodetect_lapack_interface_probe_witness:
  "autodetect_lapack_interface sample_macros (fake_library [] 0 0xFFFFFFFFFFFFFFFC 0 0) 0x1000 [] =
     (64, [Call_dpotrf 0x1000 CHR ''U'' 2 [None, None, None, None] 0 0])
   \<and> fst (autodetect_lapack_interface sample_macros (fake_library [] 0 0xFFFFFFFC 0 0) 0x1000 []) = 32
   \<and> fst (autodetect_lapack_interface sample_macros (fake_library [] 0 0 0 0) 0x1000 []) = 0"
  using autodetect_lapack_interface_probe [THEN conjunct1,
      of sample_macros "fake_library [] 0 0xFFFFFFFFFFFFFFFC 0 0" "0x1000" "[]"]
    autodetect_lapack_interface_probe [THEN conjunct1,
      of sample_macros "fake_library [] 0 0xFFFFFFFC 0 0" "0x1000" "[]"]
    autodetect_lapack_interface_probe [THEN conjunct1,
      of sample_macros "fake_library [] 0 0 0 0" "0x1000" "[]"]
  by (simp add: sample_macros_def fake_library_def)

lemma fake_lsame_depth_append:
  "fake_lsame_depth (xs @ ys) = fake_lsame_depth xs + fake_lsame_depth ys"
  by (induction xs rule: fake_lsame_depth.induct) simp_all

text \<open>
  Claim C7. In a build with \<^verbatim>\<open>LBT_DEEPBINDLESS\<close>, \<^verbatim>\<open>autodetect_blas_interface\<close> adds
  exactly three events, whatever the probed routine returns: the install of the
  \<^verbatim>\<open>lsame_\<close> substitution, the one \<^verbatim>\<open>isamax\<close> call, and the removal of the
  substitution. The number of installed substitutions is afterwards what it was before, and
  the call is the only event that happens while the substitution is in place.
\<close>

theorem fake_lsame_scoped_around_isamax:
  assumes "LBT_DEEPBINDLESS cfg"
  shows "snd (autodetect_blas_interface cfg env isamax_addr tr) =
           tr @ [Push_fake_lsame,
                 Call_isamax isamax_addr 0xFFFFFFFF00000003 [lit_1_0f, lit_2_0f, lit_1_0f] 1,
                 Pop_fake_lsame]
         \<and> fake_lsame_depth (snd (autodetect_blas_interface cfg env isamax_addr tr)) =
             fake_lsame_depth tr
         \<and> under_fake_lsame 0 (drop (length tr) (snd (autodetect_blas_interface cfg env isamax_addr tr))) =
             [Call_isamax isamax_addr 0xFFFFFFFF00000003 [lit_1_0f, lit_2_0f, lit_1_0f] 1]"
  using assms
  by (simp add: autodetect_blas_interface_def Let_def fake_lsame_depth_append)

theorem fake_lsame_scoped_around_isamax_witness:
  "LBT_DEEPBINDLESS sample_macros
   \<and> snd (autodetect_blas_interface sample_macros (fake_library [] 5 0 0 0) 0x1000 [Lookup_symbol 7 ''isamax_'']) =
       [Lookup_symbol 7 ''isamax_'', Push_fake_lsame,
        Call_isamax 0x1000 0xFFFFFFFF00000003 [lit_1_0f, lit_2_0f, lit_1_0f] 1, Pop_fake_lsame]"
proof -
  have d: "LBT_DEEPBINDLESS sample_macros"
    by (simp add: sample_macros_def)
  show ?thesis
    using d fake_lsame_scoped_around_isamax [OF d, of "fake_library [] 5 0 0 0" "0x1000"
        "[Lookup_symbol 7 ''isamax_'']"]
    by simp
qed

subsection \<open>Strategy selection in \<^verbatim>\<open>autodetect_interface\<close>\<close>



lemma autodetect_interface_overflow:
  assumes "MAX_SYMBOL_LEN cfg \<le> length suffix + 7"
  shows "autodetect_interface cfg env handle suffix tr = Inl Buffer_overflow"
  using assms by (simp add: autodetect_interface_def sprintf_def)



subsection \<open>The f2c probe\<close>


lemma autodetect_f2c_overflow:
  assumes "MAX_SYMBOL_LEN cfg \<le> length suffix + 5"
  shows "autodetect_f2c cfg env handle suffix tr = Inl Buffer_overflow"
  using assms by (simp add: autodetect_f2c_def sprintf_def)



text \<open>
  Claim C6, amended. When \<^verbatim>\<open>sdot_\<close> followed by the suffix fits the buffer and
  resolves, \<^verbatim>\<open>autodetect_f2c\<close> calls the address twice with \<open>n = 1\<close>, the vectors
  \<open>{0.5}\<close> and \<open>{0.5}\<close> and both strides \<open>1\<close>: once as a function returning
  \<^verbatim>\<open>float\<close>, once as a function returning \<^verbatim>\<open>double\<close>. It returns
  \<^verbatim>\<open>LBT_F2C_PLAIN\<close> if the float equals \<open>0.25\<close>; otherwise \<^verbatim>\<open>LBT_F2C_REQUIRED\<close> if
  the double, \<^emph>\<open>after its conversion to float\<close>, equals \<open>0.25\<close> (as it does whenever
  the double is exactly \<open>0.25\<close>); otherwise \<^verbatim>\<open>LBT_F2C_UNKNOWN\<close>.
\<close>

theorem autodetect_f2c_classifies:
  assumes "length suffix + 6 \<le> MAX_SYMBOL_LEN cfg"
    and "lookup_symbol env handle (''sdot_'' @ suffix) \<noteq> NULL"
  shows "autodetect_f2c cfg env handle suffix tr =
           (let sdot_addr = lookup_symbol env handle (''sdot_'' @ suffix);
                tr0 = tr @ [Lookup_symbol handle (''sdot_'' @ suffix)];
                half = [0x3F000000];
                plain = sdot_plain env tr0 sdot_addr 1 half 1 half 1;
                tr1 = tr0 @ [Call_sdot_plain sdot_addr 1 half 1 half 1];
                wide = sdot_f2c env tr1 sdot_addr 1 half 1 half 1;
                tr2 = tr1 @ [Call_sdot_f2c sdot_addr 1 half 1 half 1]
            in Inr (if float_val plain = Finite (1 / 4) then LBT_F2C_PLAIN cfg
                    else if float_val (double_to_float wide) = Finite (1 / 4) then LBT_F2C_REQUIRED cfg
                    else LBT_F2C_UNKNOWN cfg,
                    tr2))
         \<and> float_val 0x3F000000 = Finite (1 / 2)
         \<and> (\<forall>w. double_val w = Finite (1 / 4) \<longrightarrow> float_val (double_to_float w) = Finite (1 / 4))"
proof -
  have quarter: "float_val 0x3E800000 = Finite (1 / 4)"
    by (simp add: float_val_def pow2_def)
  have exact: "\<forall>w. double_val w = Finite (1 / 4) \<longrightarrow> float_val (double_to_float w) = Finite (1 / 4)"
    by (simp add: double_quarter_to_float quarter)
  have run: "autodetect_f2c cfg env handle suffix tr =
           (let sdot_addr = lookup_symbol env handle (''sdot_'' @ suffix);
                tr0 = tr @ [Lookup_symbol handle (''sdot_'' @ suffix)];
                half = [0x3F000000];
                plain = sdot_plain env tr0 sdot_addr 1 half 1 half 1;
                tr1 = tr0 @ [Call_sdot_plain sdot_addr 1 half 1 half 1];
                wide = sdot_f2c env tr1 sdot_addr 1 half 1 half 1;
                tr2 = tr1 @ [Call_sdot_f2c sdot_addr 1 half 1 half 1]
            in Inr (if float_val plain = Finite (1 / 4) then LBT_F2C_PLAIN cfg
                    else if float_val (double_to_float wide) = Finite (1 / 4) then LBT_F2C_REQUIRED cfg
                    else LBT_F2C_UNKNOWN cfg,
                    tr2))"
    using assms
    by (simp add: autodetect_f2c_def sprintf_def Let_def half_as_float double_val_lits c_eq_Finite)
  from run exact show ?thesis
    by (simp only: half_as_float simp_thms)
qed

theorem autodetect_f2c_classifies_witness:
  "length '''' + 6 \<le> MAX_SYMBOL_LEN sample_macros
   \<and> lookup_symbol (fake_library [''sdot_''] 0 0 0 0) 7 (''sdot_'' @ '''') \<noteq> NULL
   \<and> autodetect_f2c sample_macros (fake_library [''sdot_''] 0 0 0x3E800000 0x3E800000) 7 '''' [] =
       Inr (0, [Lookup_symbol 7 ''sdot_'',
                Call_sdot_plain 0x1000 1 [0x3F000000] 1 [0x3F000000] 1,
                Call_sdot_f2c 0x1000 1 [0x3F000000] 1 [0x3F000000] 1])
   \<and> autodetect_f2c sample_macros (fake_library [''sdot_''] 0 0 0 0x3FD0000000000000) 7 '''' [] =
       Inr (1, [Lookup_symbol 7 ''sdot_'',
                Call_sdot_plain 0x1000 1 [0x3F000000] 1 [0x3F000000] 1,
                Call_sdot_f2c 0x1000 1 [0x3F000000] 1 [0x3F000000] 1])
   \<and> autodetect_f2c sample_macros (fake_library [''sdot_''] 0 0 0 0) 7 '''' [] =
       Inr (- 1, [Lookup_symbol 7 ''sdot_'',
                Call_sdot_plain 0x1000 1 [0x3F000000] 1 [0x3F000000] 1,
                Call_sdot_f2c 0x1000 1 [0x3F000000] 1 [0x3F000000] 1])"
proof -
  have fits: "length '''' + 6 \<le> MAX_SYMBOL_LEN sample_macros"
    by (simp add: sample_macros_def)
  have found: "lookup_symbol (fake_library [''sdot_''] max_idx info plain wide) 7 (''sdot_'' @ '''') \<noteq> NULL"
    for max_idx info plain wide
    by (simp add: fake_library_def NULL_def)
  have vals: "float_val 0x3E800000 = Finite (1 / 4)" "float_val 0 \<noteq> Finite (1 / 4)"
    "double_to_float 0x3E800000 = 0" "double_to_float 0x3FD0000000000000 = 0x3E800000"
    "double_to_float 0 = 0"
    by (simp_all add: float_val_def double_to_float_def pow2_def)
  show ?thesis
    using fits found [of 0 0 0 0]
      autodetect_f2c_classifies [OF fits found, THEN conjunct1, of 0 0 "0x3E800000" "0x3E800000" "[]"]
      autodetect_f2c_classifies [OF fits found, THEN conjunct1, of 0 0 0 "0x3FD0000000000000" "[]"]
      autodetect_f2c_classifies [OF fits found, THEN conjunct1, of 0 0 0 0 "[]"]
    by (simp add: sample_macros_def fake_library_def vals Let_def)
qed

text \<open>
  Claim C6 as stated returns \<^verbatim>\<open>LBT_F2C_UNKNOWN\<close> when neither the float nor the double
  equals \<open>0.25\<close>. A routine whose float result is the smallest subnormal and whose double
  result is the double next above \<open>0.25\<close> matches neither, and the function returns
  \<^verbatim>\<open>LBT_F2C_REQUIRED\<close>: the double is rounded to the float \<open>0.25\<close> before the
  comparison.
\<close>

theorem autodetect_f2c_rounding_counterexample:
  "float_val 0x00000001 \<noteq> Finite (1 / 4)
   \<and> double_val 0x3FD0000000000001 \<noteq> Finite (1 / 4)
   \<and> autodetect_f2c sample_macros (fake_library [''sdot_''] 0 0 0x00000001 0x3FD0000000000001) 7 '''' [] =
       Inr (LBT_F2C_REQUIRED sample_macros,
            [Lookup_symbol 7 ''sdot_'',
             Call_sdot_plain 0x1000 1 [0x3F000000] 1 [0x3F000000] 1,
             Call_sdot_f2c 0x1000 1 [0x3F000000] 1 [0x3F000000] 1])
   \<and> LBT_F2C_REQUIRED sample_macros \<noteq> LBT_F2C_UNKNOWN sample_macros"
proof -
  have vals: "float_val 0x00000001 \<noteq> Finite (1 / 4)" "double_val 0x3FD0000000000001 \<noteq> Finite (1 / 4)"
    "double_to_float 0x3FD0000000000001 = 0x3E800000" "float_val 0x3E800000 = Finite (1 / 4)"
    by (simp_all add: float_val_def double_val_def double_to_float_def pow2_def)
  have run: "autodetect_f2c sample_macros (fake_library [''sdot_''] 0 0 0x00000001 0x3FD0000000000001) 7 '''' [] =
       Inr (LBT_F2C_REQUIRED sample_macros,
            [Lookup_symbol 7 ''sdot_'',
             Call_sdot_plain 0x1000 1 [0x3F000000] 1 [0x3F000000] 1,
             Call_sdot_f2c 0x1000 1 [0x3F000000] 1 [0x3F000000] 1])"
    by (simp add: autodetect_f2c_def sprintf_def Let_def sample_macros_def fake_library_def NULL_def
          half_as_float double_val_lits c_eq_Finite vals)
  have "LBT_F2C_REQUIRED sample_macros \<noteq> LBT_F2C_UNKNOWN sample_macros"
    by (simp add: sample_macros_def)
  with vals(1,2) run show ?thesis
    by simp
qed

text \<open>
  Claim C10. When \<^verbatim>\<open>sdot_\<close> followed by the suffix fits the buffer and resolves,
  \<^verbatim>\<open>autodetect_f2c\<close> makes the lookup and the two calls, and it tests the float
  result before the double result. If both comparisons of the source with \<open>0.25\<close> hold,
  the result is \<^verbatim>\<open>LBT_F2C_PLAIN\<close> and not \<^verbatim>\<open>LBT_F2C_REQUIRED\<close> (the two macros
  taken to be different values); the second comparison alone gives
  \<^verbatim>\<open>LBT_F2C_REQUIRED\<close>, so in the first case it is the order of the tests that
  decides. The second comparison is the one the source makes, on the double converted to
  float; it holds in particular when the double is exactly \<open>0.25\<close>.
\<close>

theorem autodetect_f2c_plain_precedence:
  assumes "length suffix + 6 \<le> MAX_SYMBOL_LEN cfg"
    and "lookup_symbol env handle (''sdot_'' @ suffix) \<noteq> NULL"
    and "LBT_F2C_PLAIN cfg \<noteq> LBT_F2C_REQUIRED cfg"
  shows "(let sdot_addr = lookup_symbol env handle (''sdot_'' @ suffix);
              tr0 = tr @ [Lookup_symbol handle (''sdot_'' @ suffix)];
              half = [double_to_float lit_0_5];
              plain = sdot_plain env tr0 sdot_addr 1 half 1 half 1;
              tr1 = tr0 @ [Call_sdot_plain sdot_addr 1 half 1 half 1];
              wide = sdot_f2c env tr1 sdot_addr 1 half 1 half 1;
              tr2 = tr1 @ [Call_sdot_f2c sdot_addr 1 half 1 half 1];
              narrow_holds = c_eq (float_val plain) (double_val lit_0_25);
              wide_holds = c_eq (float_val (double_to_float wide)) (double_val lit_0_25)
          in (narrow_holds \<and> wide_holds \<longrightarrow>
                autodetect_f2c cfg env handle suffix tr = Inr (LBT_F2C_PLAIN cfg, tr2)
                \<and> (\<forall>tr'. autodetect_f2c cfg env handle suffix tr \<noteq> Inr (LBT_F2C_REQUIRED cfg, tr')))
           \<and> (\<not> narrow_holds \<and> wide_holds \<longrightarrow>
                autodetect_f2c cfg env handle suffix tr = Inr (LBT_F2C_REQUIRED cfg, tr2)))"
  using assms
  by (simp add: autodetect_f2c_def sprintf_def Let_def)

theorem autodetect_f2c_plain_precedence_witness:
  "length '''' + 6 \<le> MAX_SYMBOL_LEN sample_macros
   \<and> LBT_F2C_PLAIN sample_macros \<noteq> LBT_F2C_REQUIRED sample_macros
   \<and> c_eq (float_val 0x3E800000) (double_val lit_0_25)
   \<and> c_eq (float_val (double_to_float 0x3FD0000000000000)) (double_val lit_0_25)
   \<and> \<not> c_eq (float_val 0) (double_val lit_0_25)
   \<and> autodetect_f2c sample_macros (fake_library [''sdot_''] 0 0 0x3E800000 0x3FD0000000000000) 7 '''' [] =
       Inr (LBT_F2C_PLAIN sample_macros,
            [Lookup_symbol 7 ''sdot_'',
             Call_sdot_plain 0x1000 1 [0x3F000000] 1 [0x3F000000] 1,
             Call_sdot_f2c 0x1000 1 [0x3F000000] 1 [0x3F000000] 1])
   \<and> autodetect_f2c sample_macros (fake_library [''sdot_''] 0 0 0 0x3FD0000000000000) 7 '''' [] =
       Inr (LBT_F2C_REQUIRED sample_macros,
            [Lookup_symbol 7 ''sdot_'',
             Call_sdot_plain 0x1000 1 [0x3F000000] 1 [0x3F000000] 1,
             Call_sdot_f2c 0x1000 1 [0x3F000000] 1 [0x3F000000] 1])"
proof -
  have fits: "length '''' + 6 \<le> MAX_SYMBOL_LEN sample_macros"
    by (simp add: sample_macros_def)
  have found: "lookup_symbol (fake_library [''sdot_''] max_idx info plain wide) 7 (''sdot_'' @ '''') \<noteq> NULL"
    for max_idx info plain wide
    by (simp add: fake_library_def NULL_def)
  have distinct: "LBT_F2C_PLAIN sample_macros \<noteq> LBT_F2C_REQUIRED sample_macros"
    by (simp add: sample_macros_def)
  have vals: "float_val 0x3E800000 = Finite (1 / 4)" "float_val 0 \<noteq> Finite (1 / 4)"
    "double_to_float 0x3FD0000000000000 = 0x3E800000"
    by (simp_all add: float_val_def double_to_float_def pow2_def)
  have both: "autodetect_f2c sample_macros (fake_library [''sdot_''] 0 0 0x3E800000 0x3FD0000000000000) 7 '''' [] =
       Inr (LBT_F2C_PLAIN sample_macros,
            [Lookup_symbol 7 ''sdot_'',
             Call_sdot_plain 0x1000 1 [0x3F000000] 1 [0x3F000000] 1,
             Call_sdot_f2c 0x1000 1 [0x3F000000] 1 [0x3F000000] 1])"
    using autodetect_f2c_plain_precedence [OF fits found distinct,
        of 0 0 "0x3E800000" "0x3FD0000000000000" "[]"]
    by (simp add: Let_def fake_library_def half_as_float double_val_lits c_eq_Finite vals)
  have wide_only: "autodetect_f2c sample_macros (fake_library [''sdot_''] 0 0 0 0x3FD0000000000000) 7 '''' [] =
       Inr (LBT_F2C_REQUIRED sample_macros,
            [Lookup_symbol 7 ''sdot_'',
             Call_sdot_plain 0x1000 1 [0x3F000000] 1 [0x3F000000] 1,
             Call_sdot_f2c 0x1000 1 [0x3F000000] 1 [0x3F000000] 1])"
    using autodetect_f2c_plain_precedence [OF fits found distinct,
        of 0 0 0 "0x3FD0000000000000" "[]"]
    by (simp add: Let_def fake_library_def half_as_float double_val_lits c_eq_Finite vals)
  from fits distinct both wide_only show ?thesis
    by (simp add: double_val_lits c_eq_Finite vals)
qed

subsection \<open>The exported symbol table\<close>

text \<open>
  Claim C8. For every name of the registry there are two address holders, one for the
  32-bit and one for the 64-bit interface. The list of names and the two lists of pointers
  to the holders are generated from the same registry: they have the same length, the
  entry at each index belongs to the registry's name at that index, and each list ends in
  a null pointer.
\<close>

theorem exported_tables_parallel:
  "length (exported_func_names registry) = Suc (length registry)
   \<and> length (exported_func32_addrs registry) = Suc (length registry)
   \<and> length (exported_func64_addrs registry) = Suc (length registry)
   \<and> last (exported_func_names registry) = None
   \<and> last (exported_func32_addrs registry) = None
   \<and> last (exported_func64_addrs registry) = None
   \<and> length (addr_holders registry) = 2 * length registry
   \<and> (\<forall>i < length registry.
        exported_func_names registry ! i = Some (registry ! i)
        \<and> exported_func32_addrs registry ! i = Some (registry ! i @ ''_addr'')
        \<and> exported_func64_addrs registry ! i = Some (registry ! i @ ''64__addr'')
        \<and> registry ! i @ ''_addr'' \<noteq> registry ! i @ ''64__addr''
        \<and> registry ! i @ ''_addr'' \<in> set (addr_holders registry)
        \<and> registry ! i @ ''64__addr'' \<in> set (addr_holders registry))"
  by (simp add: exported_func_names_def exported_func32_addrs_def exported_func64_addrs_def
        addr_holders_def EXPORTED_FUNCS_def nth_append)

theorem exported_tables_parallel_witness:
  "exported_func_names [''dgemm_'', ''dpotrf_''] = [Some ''dgemm_'', Some ''dpotrf_'', None]
   \<and> exported_func32_addrs [''dgemm_'', ''dpotrf_''] ! 1 = Some ''dpotrf__addr''
   \<and> exported_func64_addrs [''dgemm_'', ''dpotrf_''] ! 1 = Some ''dpotrf_64__addr''
   \<and> length (addr_holders [''dgemm_'', ''dpotrf_'']) = 4"
proof -
  have "(1::nat) < length [''dgemm_'', ''dpotrf_'']"
    by simp
  with exported_tables_parallel [of "[''dgemm_'', ''dpotrf_'']"]
  have "exported_func32_addrs [''dgemm_'', ''dpotrf_''] ! 1 = Some ([''dgemm_'', ''dpotrf_''] ! 1 @ ''_addr'')"
    and "exported_func64_addrs [''dgemm_'', ''dpotrf_''] ! 1 = Some ([''dgemm_'', ''dpotrf_''] ! 1 @ ''64__addr'')"
    and "length (addr_holders [''dgemm_'', ''dpotrf_'']) = 2 * length [''dgemm_'', ''dpotrf_'']"
    by blast+
  then show ?thesis
    by (simp add: exported_func_names_def EXPORTED_FUNCS_def)
qed

end
